theory Spec2Isabelle
  imports Complex_Main
begin

section \<open>Host-language values\<close>

text \<open>
  A JavaScript number is a double: a rational, or one of NaN, +Infinity, -Infinity.
  The schema only compares numbers and tests integrality, which is exact on the rational
  a double denotes. Strings are lists of code units; \<open>length\<close> is the \<open>.length\<close> of
  the source.
\<close>

datatype jsnumber = Finite rat | NaN | PosInf | NegInf

datatype jsvalue = JUndefined | JNull | JBool bool | JNum jsnumber | JStr string

text \<open>The relation \<open><\<close> on numbers: every comparison with NaN is false.\<close>

fun jsless :: "jsnumber \<Rightarrow> jsnumber \<Rightarrow> bool" where
  "jsless NaN _ = False"
| "jsless _ NaN = False"
| "jsless (Finite a) (Finite b) = (a < b)"
| "jsless (Finite _) PosInf = True"
| "jsless (Finite _) NegInf = False"
| "jsless PosInf _ = False"
| "jsless NegInf NegInf = False"
| "jsless NegInf _ = True"

text \<open>\<open>Number.isInteger\<close>.\<close>

fun isInteger :: "jsnumber \<Rightarrow> bool" where
  "isInteger (Finite r) = (of_int \<lfloor>r\<rfloor> = r)"
| "isInteger _ = False"

text \<open>
  \<open>Number(v)\<close>. The conversion of a string (StringToNumber of the language: white space,
  signs, exponents, hexadecimal literals, rounding to a double) is a parameter.
\<close>

fun ToNumber :: "(string \<Rightarrow> jsnumber) \<Rightarrow> jsvalue \<Rightarrow> jsnumber" where
  "ToNumber s2n JUndefined = NaN"
| "ToNumber s2n JNull = Finite 0"
| "ToNumber s2n (JBool b) = Finite (if b then 1 else 0)"
| "ToNumber s2n (JNum n) = n"
| "ToNumber s2n (JStr s) = s2n s"

text \<open>
  Option objects (\<open>SearchOptions\<close>, \<open>NeedleOptions\<close>) are objects with string keys; a
  spread \<open>{...a, ...b}\<close> is \<open>a ++ b\<close>, and spreading \<open>undefined\<close> adds no key.
\<close>

datatype agent = HttpsProxyAgent string | OtherAgent nat

datatype SafeSearchType = STRICT | MODERATE | OFF

datatype optval =
    VUndefined
  | VBool bool
  | VNum int
  | VStr string
  | VSafeSearch SafeSearchType
  | VAgent agent
  | VHeaders "string \<Rightarrow> string option"

type_synonym obj = "string \<Rightarrow> optval option"

fun spread :: "obj option \<Rightarrow> obj" where
  "spread None = Map.empty"
| "spread (Some m) = m"

section \<open>Tool options, results and errors\<close>

record ThrottleOptions =
  limit :: "int option"
  interval :: "int option"
  strict :: "bool option"

text \<open>\<open>throttle?: ThrottleOptions | false\<close>; \<open>None\<close> is the absent key.\<close>

datatype throttle_setting = ThrottleFalse | ThrottleWith ThrottleOptions

text \<open>
  \<open>maxResultsPerPage: number\<close> is an \<open>int\<close> here: the data model of the specification
  makes it an integer, and fractional or non-finite values are outside this model.
\<close>

record DuckDuckGoSearchToolOptions =
  search :: "obj option"
  throttle :: "throttle_setting option"
  httpClientOptions :: "obj option"
  maxResultsPerPage :: int
  apiKey :: "string option"
  http_proxy_url :: "string option"

text \<open>\<open>Partial<DuckDuckGoSearchToolOptions>\<close>, the constructor's argument.\<close>

record PartialOptions =
  p_search :: "obj option"
  p_throttle :: "throttle_setting option"
  p_httpClientOptions :: "obj option"
  p_maxResultsPerPage :: "int option"
  p_apiKey :: "string option"
  p_http_proxy_url :: "string option"

record DuckDuckGoSearchToolRunOptions =
  run_search :: "obj option"
  run_httpClientOptions :: "obj option"

record SearchToolResult =
  title :: string
  description :: string
  url :: string

record DuckDuckGoSearchToolOutput =
  results :: "SearchToolResult list"

record Snapshot =
  snapshot_results :: "SearchToolResult list"

text \<open>
  The client: the raw search function, or the function returned by
  \<open>pThrottle(options)(rawDDGSearch)\<close>.
\<close>

record pThrottleOptions =
  pt_limit :: int
  pt_interval :: int
  pt_strict :: "bool option"

datatype client = RawDDGSearch | PThrottle pThrottleOptions

record DuckDuckGoSearchTool =
  options :: DuckDuckGoSearchToolOptions
  client :: client

datatype issue = InvalidType | NotInteger | TooSmall | TooBig

datatype error =
    ValidationError "(string \<times> issue) list"
  | RangeError
  | ClientError string

text \<open>
  The collaborators the tool calls, as parameters: the search backend
  (\<open>duck-duck-scrape\<close>), the header generator, the markup stripper
  (\<open>string-strip-html\<close>) and the language's string-to-number conversion.
\<close>

record RawResult =
  raw_title :: string
  raw_description :: string
  raw_url :: string

record collaborators =
  rawDDGSearch :: "string \<Rightarrow> obj \<Rightarrow> obj \<Rightarrow> string + RawResult list"
  getHeaders :: "string \<Rightarrow> string option"
  stripHtml :: "string \<Rightarrow> string"
  StringToNumber :: "string \<Rightarrow> jsnumber"

text \<open>An outbound call, as the backend receives it: query, search options, transport options.\<close>

type_synonym call = "string \<times> obj \<times> obj"

section \<open>Output snapshots\<close>

definition createSnapshot :: "DuckDuckGoSearchToolOutput \<Rightarrow> Snapshot" where
  "createSnapshot this = \<lparr>snapshot_results = results this\<rparr>"

text \<open>\<open>Object.assign(this, snapshot)\<close>: the snapshot's one key is copied onto the instance.\<close>

definition loadSnapshot :: "DuckDuckGoSearchToolOutput \<Rightarrow> Snapshot \<Rightarrow> DuckDuckGoSearchToolOutput" where
  "loadSnapshot this snapshot = this\<lparr>results := snapshot_results snapshot\<rparr>"

section \<open>Construction\<close>

text \<open>\<open>_createClient\<close>.\<close>

definition createClient :: "DuckDuckGoSearchToolOptions \<Rightarrow> client" where
  "createClient opts =
     (case throttle opts of
        Some ThrottleFalse \<Rightarrow> RawDDGSearch
      | Some (ThrottleWith t) \<Rightarrow>
          PThrottle \<lparr>pt_limit = (case limit t of Some l \<Rightarrow> l | None \<Rightarrow> 1),
                     pt_interval = (case interval t of Some i \<Rightarrow> i | None \<Rightarrow> 3000),
                     pt_strict = strict t\<rparr>
      | None \<Rightarrow> PThrottle \<lparr>pt_limit = 1, pt_interval = 3000, pt_strict = None\<rparr>)"

text \<open>The constructor: \<open>{...options, maxResultsPerPage: options?.maxResultsPerPage ?? 15}\<close>.\<close>

definition constructor :: "PartialOptions \<Rightarrow> DuckDuckGoSearchTool" where
  "constructor opts =
     (let full = \<lparr>search = p_search opts,
                  throttle = p_throttle opts,
                  httpClientOptions = p_httpClientOptions opts,
                  maxResultsPerPage = (case p_maxResultsPerPage opts of Some n \<Rightarrow> n | None \<Rightarrow> 15),
                  apiKey = p_apiKey opts,
                  http_proxy_url = p_http_proxy_url opts\<rparr>
      in \<lparr>options = full, client = createClient full\<rparr>)"

definition no_options :: PartialOptions where
  "no_options = \<lparr>p_search = None, p_throttle = None, p_httpClientOptions = None,
                  p_maxResultsPerPage = None, p_apiKey = None, p_http_proxy_url = None\<rparr>"

section \<open>Input schema\<close>

text \<open>
  The schema library (\<open>zod\<close>), for the part \<open>inputSchema\<close> uses. A string schema and a
  number schema carry a list of checks; parsing runs every check and collects the issues.
\<close>

datatype string_check = MinLength nat | MaxLength nat

type_synonym ZodString = "string_check list"

definition z_string :: ZodString where
  "z_string = []"

definition string_min :: "nat \<Rightarrow> ZodString \<Rightarrow> ZodString" where
  "string_min n zs = zs @ [MinLength n]"

definition string_max :: "nat \<Rightarrow> ZodString \<Rightarrow> ZodString" where
  "string_max n zs = zs @ [MaxLength n]"

fun check_string :: "string \<Rightarrow> string_check \<Rightarrow> issue list" where
  "check_string s (MinLength n) = (if length s < n then [TooSmall] else [])"
| "check_string s (MaxLength n) = (if n < length s then [TooBig] else [])"

definition parse_string :: "ZodString \<Rightarrow> jsvalue \<Rightarrow> issue list + string" where
  "parse_string zs v =
     (case v of
        JStr s \<Rightarrow>
          (let issues = concat (map (check_string s) zs)
           in if issues = [] then Inr s else Inl issues)
      | _ \<Rightarrow> Inl [InvalidType])"

datatype number_check = CheckInt | CheckMin rat | CheckMax rat

record ZodNumber =
  coerce :: bool
  checks :: "number_check list"

definition z_coerce_number :: ZodNumber where
  "z_coerce_number = \<lparr>coerce = True, checks = []\<rparr>"

definition number_int :: "ZodNumber \<Rightarrow> ZodNumber" where
  "number_int zn = zn\<lparr>checks := checks zn @ [CheckInt]\<rparr>"

definition number_min :: "rat \<Rightarrow> ZodNumber \<Rightarrow> ZodNumber" where
  "number_min m zn = zn\<lparr>checks := checks zn @ [CheckMin m]\<rparr>"

definition number_max :: "rat \<Rightarrow> ZodNumber \<Rightarrow> ZodNumber" where
  "number_max m zn = zn\<lparr>checks := checks zn @ [CheckMax m]\<rparr>"

fun check_number :: "jsnumber \<Rightarrow> number_check \<Rightarrow> issue list" where
  "check_number x CheckInt = (if isInteger x then [] else [NotInteger])"
| "check_number x (CheckMin m) = (if jsless x (Finite m) then [TooSmall] else [])"
| "check_number x (CheckMax m) = (if jsless (Finite m) x then [TooBig] else [])"

text \<open>With \<open>coerce\<close> the input is first replaced by \<open>Number(input)\<close>; NaN is not a number.\<close>

definition parse_number ::
  "(string \<Rightarrow> jsnumber) \<Rightarrow> ZodNumber \<Rightarrow> jsvalue \<Rightarrow> issue list + jsnumber" where
  "parse_number s2n zn v =
     (case (if coerce zn then JNum (ToNumber s2n v) else v) of
        JNum NaN \<Rightarrow> Inl [InvalidType]
      | JNum x \<Rightarrow>
          (let issues = concat (map (check_number x) (checks zn))
           in if issues = [] then Inr x else Inl issues)
      | _ \<Rightarrow> Inl [InvalidType])"

text \<open>\<open>.default(d)\<close>: an undefined input is replaced by \<open>d\<close> before the inner schema runs.\<close>

definition z_default :: "jsvalue \<Rightarrow> (jsvalue \<Rightarrow> issue list + 'a) \<Rightarrow> jsvalue \<Rightarrow> issue list + 'a" where
  "z_default d inner v = inner (if v = JUndefined then d else v)"

text \<open>\<open>.optional()\<close>: an undefined input is accepted as it is; the inner schema is not run.\<close>

definition z_optional :: "(jsvalue \<Rightarrow> issue list + 'a) \<Rightarrow> jsvalue \<Rightarrow> issue list + 'a option" where
  "z_optional inner v =
     (if v = JUndefined then Inr None
      else (case inner v of Inl issues \<Rightarrow> Inl issues | Inr x \<Rightarrow> Inr (Some x)))"

record ToolInputRaw =
  rawQuery :: jsvalue
  rawPage :: jsvalue

text \<open>The validated input: \<open>page\<close> has passed the integer check, so it is an \<open>int\<close>.\<close>

record ToolInput =
  query :: string
  page :: "int option"

record InputSchema =
  querySchema :: "jsvalue \<Rightarrow> issue list + string"
  pageSchema :: "jsvalue \<Rightarrow> issue list + jsnumber option"

text \<open>
  \<open>inputSchema\<close>. \<open>.describe(...)\<close> attaches documentation only (the one place where the
  schema reads the tool's options) and is left out. The source writes
  \<open>.default(1).optional()\<close>, so \<open>optional\<close> is the outer schema: an undefined page passes as
  undefined, and \<open>_run\<close> supplies the 1.
\<close>

definition inputSchema :: "collaborators \<Rightarrow> InputSchema" where
  "inputSchema env =
     \<lparr>querySchema = parse_string (string_max 128 (string_min 1 z_string)),
      pageSchema =
        z_optional
          (z_default (JNum (Finite 1))
            (parse_number (StringToNumber env)
              (number_max 10 (number_min 1 (number_int z_coerce_number)))))\<rparr>"

text \<open>
  The page as an \<open>int\<close>. A number that passed the schema is a finite integer, so the
  floor is exact and the second equation is never used on a validated page.
\<close>

fun int_of_number :: "jsnumber \<Rightarrow> int" where
  "int_of_number (Finite r) = \<lfloor>r\<rfloor>"
| "int_of_number _ = 0"

text \<open>\<open>z.object\<close>: every key is parsed, and the issues are reported under the key's name.\<close>

definition parse_object :: "InputSchema \<Rightarrow> ToolInputRaw \<Rightarrow> (string \<times> issue) list + ToolInput" where
  "parse_object schema raw =
     (case (querySchema schema (rawQuery raw), pageSchema schema (rawPage raw)) of
        (Inr q, Inr p) \<Rightarrow> Inr \<lparr>query = q, page = map_option int_of_number p\<rparr>
      | (Inl qs, Inr p) \<Rightarrow> Inl (map (Pair ''query'') qs)
      | (Inr q, Inl ps) \<Rightarrow> Inl (map (Pair ''page'') ps)
      | (Inl qs, Inl ps) \<Rightarrow> Inl (map (Pair ''query'') qs @ map (Pair ''page'') ps))"

section \<open>Running a search\<close>

text \<open>The header set: generated, then \<open>Authorization\<close> is set when the API key is truthy.\<close>

definition build_headers :: "collaborators \<Rightarrow> DuckDuckGoSearchToolOptions \<Rightarrow> string \<Rightarrow> string option" where
  "build_headers env opts =
     (case apiKey opts of
        None \<Rightarrow> getHeaders env
      | Some k \<Rightarrow>
          if k \<noteq> [] then (getHeaders env)(''Authorization'' \<mapsto> ''Bearer '' @ k)
          else getHeaders env)"

text \<open>
  \<open>httpClientOptions\<close>: the configuration's options, then the call's, then the proxy
  agent when the proxy URL is truthy.
\<close>

definition merge_httpClientOptions ::
  "DuckDuckGoSearchToolOptions \<Rightarrow> DuckDuckGoSearchToolRunOptions option \<Rightarrow> obj" where
  "merge_httpClientOptions opts ro =
     (let merged = spread (httpClientOptions opts) ++ spread (Option.bind ro run_httpClientOptions)
      in case http_proxy_url opts of
           None \<Rightarrow> merged
         | Some u \<Rightarrow>
             if u \<noteq> [] then merged(''agent'' \<mapsto> VAgent (HttpsProxyAgent u)) else merged)"

definition search_options ::
  "DuckDuckGoSearchToolOptions \<Rightarrow> int \<Rightarrow> DuckDuckGoSearchToolRunOptions option \<Rightarrow> obj" where
  "search_options opts pg ro =
     [''offset'' \<mapsto> VNum (maxResultsPerPage opts * (pg - 1)),
      ''safeSearch'' \<mapsto> VSafeSearch MODERATE]
     ++ spread (search opts)
     ++ spread (Option.bind ro run_search)"

definition transport_options ::
  "collaborators \<Rightarrow> DuckDuckGoSearchToolOptions \<Rightarrow> DuckDuckGoSearchToolRunOptions option \<Rightarrow> obj" where
  "transport_options env opts ro =
     (let headers = build_headers env opts
      in [''headers'' \<mapsto> VHeaders headers,
          ''user_agent'' \<mapsto> (case headers ''user-agent'' of None \<Rightarrow> VUndefined | Some u \<Rightarrow> VStr u)]
         ++ merge_httpClientOptions opts ro)"

text \<open>
  Calling the client. A throttled client delays the call and then makes the same call;
  time is not part of this model.
\<close>

fun invoke :: "client \<Rightarrow> collaborators \<Rightarrow> call \<Rightarrow> string + RawResult list" where
  "invoke RawDDGSearch env (q, s, t) = rawDDGSearch env q s t"
| "invoke (PThrottle _) env (q, s, t) = rawDDGSearch env q s t"

text \<open>
  \<open>if (results.length > cap) results.length = cap\<close>. Assigning a negative length raises
  a RangeError. (So does a length of \<open>2^32\<close> or more, which no array exceeds.)
\<close>

definition set_length :: "int \<Rightarrow> 'a list \<Rightarrow> error + 'a list" where
  "set_length cap rs =
     (if cap < int (length rs)
      then (if cap < 0 then Inl RangeError else Inr (take (nat cap) rs))
      else Inr rs)"

definition normalize :: "collaborators \<Rightarrow> RawResult \<Rightarrow> SearchToolResult" where
  "normalize env r =
     \<lparr>title = stripHtml env (raw_title r),
      description = stripHtml env (raw_description r),
      url = raw_url r\<rparr>"

text \<open>
  \<open>_run\<close>, in two parts. First the call it hands to the client: the query, the search
  options and the transport options; an undefined \<open>page\<close> is 1 (the default of the
  destructuring).
\<close>

definition request ::
  "collaborators \<Rightarrow> DuckDuckGoSearchTool \<Rightarrow> ToolInput \<Rightarrow> DuckDuckGoSearchToolRunOptions option
     \<Rightarrow> call" where
  "request env this inp ro =
     (let pg = (case page inp of None \<Rightarrow> 1 | Some p \<Rightarrow> p)
      in (query inp,
          search_options (options this) pg ro,
          transport_options env (options this) ro))"

text \<open>
  Then the call, the truncation and the normalisation. The result is the list of
  outbound calls made, and the output or the error thrown.
\<close>

definition run_impl ::
  "collaborators \<Rightarrow> DuckDuckGoSearchTool \<Rightarrow> ToolInput \<Rightarrow> DuckDuckGoSearchToolRunOptions option
     \<Rightarrow> call list \<times> (error + DuckDuckGoSearchToolOutput)" where
  "run_impl env this inp ro =
     (let c = request env this inp ro
      in case invoke (client this) env c of
           Inl e \<Rightarrow> ([c], Inl (ClientError e))
         | Inr rs \<Rightarrow>
             (case set_length (maxResultsPerPage (options this)) rs of
                Inl e \<Rightarrow> ([c], Inl e)
              | Inr kept \<Rightarrow> ([c], Inr \<lparr>results = map (normalize env) kept\<rparr>)))"

text \<open>
  Modelled from the spec: \<open>run\<close> of the base class \<open>Tool\<close> (\<open>tools/base\<close>) is not among
  the sources. Step 1 of the specification's orchestrator: validate the input with the
  schema and reject early on failure; only a valid input reaches \<open>_run\<close>.
\<close>

definition run ::
  "collaborators \<Rightarrow> DuckDuckGoSearchTool \<Rightarrow> ToolInputRaw \<Rightarrow> DuckDuckGoSearchToolRunOptions option
     \<Rightarrow> call list \<times> (error + DuckDuckGoSearchToolOutput)" where
  "run env this raw ro =
     (case parse_object (inputSchema env) raw of
        Inl issues \<Rightarrow> ([], Inl (ValidationError issues))
      | Inr inp \<Rightarrow> run_impl env this inp ro)"

section \<open>Stub collaborators\<close>

text \<open>
  Concrete collaborators on which the tool is run below: a backend that answers every
  call with the same three results, a fixed header set, a stripper that drops every
  \<open><...>\<close> tag, and a string-to-number conversion that is the language's on short
  strings of decimal digits and on the empty string (any other string is NaN here).
\<close>

fun strip_tags :: "bool \<Rightarrow> string \<Rightarrow> string" where
  "strip_tags inside [] = []"
| "strip_tags inside (c # cs) =
     (if c = CHR ''<'' then strip_tags True cs
      else if c = CHR ''>'' \<and> inside then strip_tags False cs
      else if inside then strip_tags inside cs
      else c # strip_tags inside cs)"

fun decimal :: "nat \<Rightarrow> string \<Rightarrow> jsnumber" where
  "decimal acc [] = Finite (of_nat acc)"
| "decimal acc (c # cs) =
     (let d = (of_char c :: nat)
      in if 48 \<le> d \<and> d \<le> 57 then decimal (10 * acc + (d - 48)) cs else NaN)"

definition three_results :: "RawResult list" where
  "three_results =
     [\<lparr>raw_title = ''<b>Foo</b>'', raw_description = ''a <i>first</i> hit'', raw_url = ''https://a.example/?q=<b>''\<rparr>,
      \<lparr>raw_title = ''Bar'', raw_description = ''second'', raw_url = ''https://b.example''\<rparr>,
      \<lparr>raw_title = ''Baz'', raw_description = ''third'', raw_url = ''https://c.example''\<rparr>]"

definition stub :: collaborators where
  "stub =
     \<lparr>rawDDGSearch = (\<lambda>q s t. Inr three_results),
      getHeaders = [''user-agent'' \<mapsto> ''Mozilla/5.0'', ''accept'' \<mapsto> ''text/html''],
      stripHtml = strip_tags False,
      StringToNumber = decimal 0\<rparr>"

section \<open>The markup stripper\<close>

text \<open>
  Modelled from the spec: the markup stripper \<open>stripHtml\<close> (\<open>string-strip-html\<close>) is not
  among the sources. The specification's contract for it: given a text it gives plain
  text, entities decoded and tags removed, and on malformed markup it gives best-effort
  plain text rather than failing. Here the entities are decoded first, then every tag,
  from a \<open><\<close> to the next \<open>>\<close> (or to the end of the text when the tag is not closed),
  is removed. The specification names no entity table; the five entities of the markup
  syntax itself are decoded and any other \<open>&\<close> stays as text.
\<close>

fun decode_entities :: "string \<Rightarrow> string" where
  "decode_entities [] = []"
| "decode_entities (c # cs) =
     (if c = CHR ''&'' \<and> take 3 cs = ''lt;'' then CHR ''<'' # decode_entities (drop 3 cs)
      else if c = CHR ''&'' \<and> take 3 cs = ''gt;'' then CHR ''>'' # decode_entities (drop 3 cs)
      else if c = CHR ''&'' \<and> take 4 cs = ''amp;'' then CHR ''&'' # decode_entities (drop 4 cs)
      else if c = CHR ''&'' \<and> take 5 cs = ''quot;'' then CHR 0x22 # decode_entities (drop 5 cs)
      else if c = CHR ''&'' \<and> take 5 cs = ''apos;'' then CHR 0x27 # decode_entities (drop 5 cs)
      else c # decode_entities cs)"

definition stripHtml_spec :: "string \<Rightarrow> string" where
  "stripHtml_spec s = strip_tags False (decode_entities s)"

section \<open>Auxiliary facts\<close>

lemma invoke_eq: "invoke c env (q, s, t) = rawDDGSearch env q s t"
  by (cases c) simp_all

lemma set_length_nonneg: "0 \<le> cap \<Longrightarrow> set_length cap rs = Inr (take (nat cap) rs)"
  by (simp add: set_length_def)

lemma calls_run_impl: "fst (run_impl env tool inp ro) = [request env tool inp ro]"
  by (simp add: run_impl_def Let_def split: sum.splits)

lemma run_impl_returns:
  assumes "0 \<le> maxResultsPerPage (options tool)"
    and "invoke (client tool) env (request env tool inp ro) = Inr rs"
  shows "snd (run_impl env tool inp ro) =
    Inr \<lparr>results = map (normalize env) (take (nat (maxResultsPerPage (options tool))) rs)\<rparr>"
  using assms by (simp add: run_impl_def Let_def set_length_nonneg)

lemma negative_cap_raises:
  assumes "maxResultsPerPage (options tool) < 0"
    and "invoke (client tool) env (request env tool inp ro) = Inr rs"
  shows "snd (run_impl env tool inp ro) = Inl RangeError"
  using assms by (simp add: run_impl_def Let_def set_length_def)

lemma cap_constructor:
  "maxResultsPerPage (options (constructor opts)) =
     (case p_maxResultsPerPage opts of None \<Rightarrow> 15 | Some n \<Rightarrow> n)"
  by (simp add: constructor_def Let_def)

lemma stub_answers: "invoke c stub (request stub tool inp ro) = Inr three_results"
  by (simp add: request_def Let_def invoke_eq stub_def)

lemmas request_defs =
  request_def search_options_def transport_options_def merge_httpClientOptions_def
  build_headers_def constructor_def no_options_def Let_def

lemmas schema_defs =
  inputSchema_def z_optional_def z_default_def parse_number_def number_max_def
  number_min_def number_int_def z_coerce_number_def parse_string_def string_max_def
  string_min_def z_string_def

lemma parse_page_accept:
  assumes "v \<noteq> JUndefined" "ToNumber (StringToNumber env) v = n"
    "isInteger n" "\<not> jsless n (Finite 1)" "\<not> jsless (Finite 10) n"
  shows "pageSchema (inputSchema env) v = Inr (Some n)"
  using assms by (cases n) (simp_all add: schema_defs)

lemma parse_page_reject:
  assumes "v \<noteq> JUndefined" "ToNumber (StringToNumber env) v = n"
    "\<not> (isInteger n \<and> \<not> jsless n (Finite 1) \<and> \<not> jsless (Finite 10) n)"
  shows "\<exists>issues. issues \<noteq> [] \<and> pageSchema (inputSchema env) v = Inl issues"
  using assms by (cases n) (auto simp add: schema_defs)

lemma parse_page_absent: "pageSchema (inputSchema env) JUndefined = Inr None"
  by (simp add: schema_defs)

lemma parse_query:
  "querySchema (inputSchema env) (JStr q) =
     (if length q < 1 then Inl [TooSmall] else if 128 < length q then Inl [TooBig] else Inr q)"
  by (simp add: schema_defs)

lemma parse_object_issues:
  assumes "querySchema schema (rawQuery raw) = Inl qs \<and> qs \<noteq> []
           \<or> pageSchema schema (rawPage raw) = Inl ps \<and> ps \<noteq> []"
  shows "\<exists>issues. issues \<noteq> [] \<and> parse_object schema raw = Inl issues"
  using assms by (auto simp: parse_object_def split: sum.splits)

lemma merged_lookup:
  "merge_httpClientOptions opts ro k =
     (if k = ''agent'' \<and> (\<exists>u. http_proxy_url opts = Some u \<and> u \<noteq> [])
      then Some (VAgent (HttpsProxyAgent (the (http_proxy_url opts))))
      else (case spread (Option.bind ro run_httpClientOptions) k of
              Some v \<Rightarrow> Some v
            | None \<Rightarrow> spread (httpClientOptions opts) k))"
  by (auto simp: merge_httpClientOptions_def Let_def map_add_def split: option.splits)

lemma transport_of_merged:
  "merge_httpClientOptions (options tool) ro k = Some v
     \<Longrightarrow> map (\<lambda>(q, s, t). t k) (fst (run_impl env tool inp ro)) = [Some v]"
  by (simp add: calls_run_impl request_def transport_options_def Let_def map_add_def)

lemma transport_agent:
  "map (\<lambda>(q, s, t). t ''agent'') (fst (run_impl env tool inp ro))
     = [merge_httpClientOptions (options tool) ro ''agent'']"
  by (simp add: calls_run_impl request_def transport_options_def Let_def map_add_def
      split: option.splits)




lemma stripHtml_spec_entities: "stripHtml_spec ''&lt;i&gt;x&lt;/i&gt; &amp; y'' = ''x & y''"
  by (simp add: stripHtml_spec_def)

section \<open>Truncation to the page size\<close>

text \<open>
  C1. When the client answers the call of \<open>_run\<close> with a sequence \<open>rs\<close> (and the cap is
  not negative, as the data model has it), \<open>_run\<close> returns an output whose results are
  the normalised first \<open>maxResultsPerPage\<close> entries of \<open>rs\<close>, in their order. If \<open>rs\<close> is
  longer than the cap the output has exactly cap results; if it has at most cap entries
  the output is as long as \<open>rs\<close>.
\<close>

theorem run_truncates:
  assumes cap: "0 \<le> maxResultsPerPage (options tool)"
    and resp: "invoke (client tool) env (request env tool inp ro) = Inr rs"
  shows "\<exists>out. snd (run_impl env tool inp ro) = Inr out
     \<and> results out = map (normalize env) (take (nat (maxResultsPerPage (options tool))) rs)
     \<and> (maxResultsPerPage (options tool) < int (length rs)
          \<longrightarrow> int (length (results out)) = maxResultsPerPage (options tool))
     \<and> (int (length rs) \<le> maxResultsPerPage (options tool)
          \<longrightarrow> length (results out) = length rs)"
proof -
  let ?out = "\<lparr>results = map (normalize env) (take (nat (maxResultsPerPage (options tool))) rs)\<rparr>"
  have "snd (run_impl env tool inp ro) = Inr ?out"
    using cap resp by (rule run_impl_returns)
  moreover have "maxResultsPerPage (options tool) < int (length rs)
      \<longrightarrow> int (length (results ?out)) = maxResultsPerPage (options tool)"
    using cap by auto
  moreover have "int (length rs) \<le> maxResultsPerPage (options tool)
      \<longrightarrow> length (results ?out) = length rs"
    by auto
  ultimately show ?thesis by (intro exI [of _ ?out]) simp
qed

text \<open>Three results from the backend, a cap of two: the first two come back, in order.\<close>

theorem run_truncates_witness:
  "\<exists>out. snd (run_impl stub (constructor (no_options\<lparr>p_maxResultsPerPage := Some 2\<rparr>))
              \<lparr>query = ''bee'', page = Some 3\<rparr> None) = Inr out
     \<and> map url (results out) = [''https://a.example/?q=<b>'', ''https://b.example'']
     \<and> length (results out) = 2"
proof -
  let ?tool = "constructor (no_options\<lparr>p_maxResultsPerPage := Some 2\<rparr>)"
  let ?inp = "\<lparr>query = ''bee'', page = Some 3\<rparr>"
  have cap: "0 \<le> maxResultsPerPage (options ?tool)"
    by (simp add: cap_constructor)
  have resp: "invoke (client ?tool) stub (request stub ?tool ?inp None) = Inr three_results"
    by (rule stub_answers)
  from run_truncates [OF cap resp] obtain out where
    out: "snd (run_impl stub ?tool ?inp None) = Inr out"
    and res: "results out = map (normalize stub) (take (nat (maxResultsPerPage (options ?tool))) three_results)"
    by blast
  have "maxResultsPerPage (options ?tool) = 2"
    by (simp add: cap_constructor)
  with res have "results out = map (normalize stub) (take 2 three_results)"
    by simp
  then have "map url (results out) = [''https://a.example/?q=<b>'', ''https://b.example'']
      \<and> length (results out) = 2"
    by (simp add: three_results_def normalize_def)
  with out show ?thesis by (intro exI [of _ out]) simp
qed

section \<open>The offset sent to the backend\<close>

text \<open>
  C2 as stated fails: a tool configured with search options that carry their own
  \<open>offset\<close> sends that offset, here 100 for page 1 where the cap times \<open>page - 1\<close> is 0.
\<close>

theorem offset_overridden_counterexample:
  "map (\<lambda>(q, s, t). s ''offset'')
     (fst (run_impl stub (constructor (no_options\<lparr>p_search := Some [''offset'' \<mapsto> VNum 100]\<rparr>))
            \<lparr>query = ''bee'', page = Some 1\<rparr> None))
   = [Some (VNum 100)]
   \<and> VNum 100 \<noteq> VNum (maxResultsPerPage
        (options (constructor (no_options\<lparr>p_search := Some [''offset'' \<mapsto> VNum 100]\<rparr>))) * (1 - 1))"
  by (simp add: calls_run_impl request_defs)

text \<open>
  C2, amended. For every page \<open>p\<close> (an absent page counting as 1), the \<open>offset\<close> in the
  search options sent to the backend is the per-call search options' \<open>offset\<close> if they
  have one, else the configuration's search options' \<open>offset\<close> if they have one, else
  \<open>maxResultsPerPage * (p - 1)\<close>.
\<close>

theorem offset_sent:
  assumes pg: "page inp = Some p \<or> page inp = None \<and> p = 1"
  shows "map (\<lambda>(q, s, t). s ''offset'') (fst (run_impl env tool inp ro)) =
     [case spread (Option.bind ro run_search) ''offset'' of
        Some v \<Rightarrow> Some v
      | None \<Rightarrow>
          (case spread (search (options tool)) ''offset'' of
             Some v \<Rightarrow> Some v
           | None \<Rightarrow> Some (VNum (maxResultsPerPage (options tool) * (p - 1))))]"
  using pg
  by (auto simp: calls_run_impl request_def search_options_def Let_def map_add_def
      split: option.splits)

theorem offset_sent_witness:
  "map (\<lambda>(q, s, t). s ''offset'')
     (fst (run_impl stub (constructor no_options) \<lparr>query = ''bee'', page = Some 3\<rparr> None))
   = [Some (VNum 30)]"
  using offset_sent [of "\<lparr>query = ''bee'', page = Some 3\<rparr>" 3 stub "constructor no_options" None]
  by (simp add: cap_constructor constructor_def no_options_def Let_def)

section \<open>Snapshot round trip\<close>

text \<open>
  C3. \<open>createSnapshot\<close> returns exactly the record holding the output's results;
  \<open>loadSnapshot\<close> of that snapshot on any fresh output gives back the same results
  sequence, and \<open>loadSnapshot\<close> of an arbitrary snapshot stores its results as they are:
  nothing is validated or normalised again.
\<close>

theorem snapshot_round_trip:
  "createSnapshot out = \<lparr>snapshot_results = results out\<rparr>
   \<and> results (loadSnapshot fresh (createSnapshot out)) = results out
   \<and> loadSnapshot fresh (createSnapshot out) = out
   \<and> results (loadSnapshot fresh snap) = snapshot_results snap"
  by (simp add: createSnapshot_def loadSnapshot_def)

section \<open>The client built at construction\<close>

text \<open>
  C4 as stated fails: a tool constructed with no throttle policy gets the backend
  wrapped in a throttle gate of one call per 3000 ms, not the raw backend.
\<close>

theorem absent_throttle_counterexample:
  "p_throttle no_options = None
   \<and> client (constructor no_options)
       = PThrottle \<lparr>pt_limit = 1, pt_interval = 3000, pt_strict = None\<rparr>
   \<and> client (constructor no_options) \<noteq> RawDDGSearch"
  by (simp add: constructor_def createClient_def no_options_def Let_def)

text \<open>
  C4, amended. If the throttle policy is \<open>false\<close> in the configuration at construction,
  the client is the raw backend function with no gate around it; if the policy is absent,
  the client is the backend behind a gate with limit 1 and interval 3000. The client is
  the raw backend only when the policy is \<open>false\<close>.
\<close>

theorem client_of_throttle:
  "(p_throttle opts = Some ThrottleFalse \<longrightarrow> client (constructor opts) = RawDDGSearch)
   \<and> (p_throttle opts = None \<longrightarrow>
        client (constructor opts) = PThrottle \<lparr>pt_limit = 1, pt_interval = 3000, pt_strict = None\<rparr>)
   \<and> (client (constructor opts) = RawDDGSearch \<longleftrightarrow> p_throttle opts = Some ThrottleFalse)"
  by (simp add: constructor_def createClient_def Let_def split: option.splits throttle_setting.splits)

theorem client_of_throttle_witness:
  "client (constructor (no_options\<lparr>p_throttle := Some ThrottleFalse\<rparr>)) = RawDDGSearch
   \<and> client (constructor no_options) = PThrottle \<lparr>pt_limit = 1, pt_interval = 3000, pt_strict = None\<rparr>"
  using client_of_throttle [of "no_options\<lparr>p_throttle := Some ThrottleFalse\<rparr>"]
    client_of_throttle [of no_options]
  by (simp add: no_options_def)

section \<open>Validation of the page\<close>

text \<open>
  C5 as stated fails: a page outside 1..10 is not clamped into the range. Page 11 is
  rejected with a too-big issue (it does not become 10), and the string \<open>"0"\<close> is
  rejected with a too-small issue.
\<close>

theorem page_not_clamped_counterexample:
  "parse_object (inputSchema stub) \<lparr>rawQuery = JStr ''bee'', rawPage = JNum (Finite 11)\<rparr>
     = Inl [(''page'', TooBig)]
   \<and> parse_object (inputSchema stub) \<lparr>rawQuery = JStr ''bee'', rawPage = JNum (Finite 11)\<rparr>
     \<noteq> Inr \<lparr>query = ''bee'', page = Some 10\<rparr>
   \<and> parse_object (inputSchema stub) \<lparr>rawQuery = JStr ''bee'', rawPage = JStr ''0''\<rparr>
     = Inl [(''page'', TooSmall)]"
  by (simp add: parse_object_def schema_defs stub_def)

text \<open>
  C5, amended. For every raw page value \<open>v\<close>, with \<open>n = Number(v)\<close>: an absent page is
  accepted and stays undefined; a present page is accepted, as \<open>n\<close>, exactly when \<open>n\<close> is
  an integer with \<open>1 \<le> n \<le> 10\<close>, and is rejected with at least one issue otherwise
  (no clamping). \<open>_run\<close> treats an undefined page as page 1.
\<close>

theorem page_schema:
  "(let n = ToNumber (StringToNumber env) v;
        valid = (isInteger n \<and> \<not> jsless n (Finite 1) \<and> \<not> jsless (Finite 10) n)
    in (v = JUndefined \<longrightarrow> pageSchema (inputSchema env) v = Inr None)
     \<and> (v \<noteq> JUndefined \<and> valid \<longrightarrow> pageSchema (inputSchema env) v = Inr (Some n))
     \<and> (v \<noteq> JUndefined \<and> \<not> valid \<longrightarrow>
          (\<exists>issues. issues \<noteq> [] \<and> pageSchema (inputSchema env) v = Inl issues)))
   \<and> (page inp = None \<longrightarrow> run_impl env tool inp ro = run_impl env tool (inp\<lparr>page := Some 1\<rparr>) ro)"
proof -
  have "page inp = None \<longrightarrow> request env tool inp ro = request env tool (inp\<lparr>page := Some 1\<rparr>) ro"
    by (simp add: request_def)
  then have "page inp = None \<longrightarrow> run_impl env tool inp ro = run_impl env tool (inp\<lparr>page := Some 1\<rparr>) ro"
    by (simp add: run_impl_def)
  then show ?thesis
    using parse_page_absent [of env] parse_page_accept [of v env] parse_page_reject [of v env]
    by (simp add: Let_def)
qed

theorem page_schema_witness:
  "pageSchema (inputSchema stub) (JStr ''7'') = Inr (Some (Finite 7))
   \<and> pageSchema (inputSchema stub) (JNum (Finite 3)) = Inr (Some (Finite 3))
   \<and> pageSchema (inputSchema stub) JUndefined = Inr None
   \<and> (\<exists>issues. issues \<noteq> [] \<and> pageSchema (inputSchema stub) (JStr ''12'') = Inl issues)
   \<and> run_impl stub (constructor no_options) \<lparr>query = ''bee'', page = None\<rparr> None
     = run_impl stub (constructor no_options) \<lparr>query = ''bee'', page = Some 1\<rparr> None"
  using page_schema [of stub "JStr ''7''" "\<lparr>query = ''bee'', page = None\<rparr>" "constructor no_options" None]
    page_schema [of stub "JNum (Finite 3)" "\<lparr>query = ''bee'', page = None\<rparr>" "constructor no_options" None]
    page_schema [of stub JUndefined "\<lparr>query = ''bee'', page = None\<rparr>" "constructor no_options" None]
    page_schema [of stub "JStr ''12''" "\<lparr>query = ''bee'', page = None\<rparr>" "constructor no_options" None]
  by (simp add: stub_def Let_def)

section \<open>Invalid input makes no call\<close>

text \<open>
  C6. If the query is a string shorter than 1 or longer than 128, or the page (as a
  number) is below 1 or above 10, then \<open>run\<close> fails with a \<open>ValidationError\<close> that
  carries at least one issue, and the list of outbound calls is empty.
\<close>

theorem invalid_input_makes_no_call:
  assumes "(\<exists>q. rawQuery raw = JStr q \<and> (length q < 1 \<or> 128 < length q))
     \<or> (let n = ToNumber (StringToNumber env) (rawPage raw)
        in jsless n (Finite 1) \<or> jsless (Finite 10) n)"
  shows "\<exists>issues. issues \<noteq> [] \<and> run env tool raw ro = ([], Inl (ValidationError issues))"
proof -
  have "\<exists>qs ps. querySchema (inputSchema env) (rawQuery raw) = Inl qs \<and> qs \<noteq> []
           \<or> pageSchema (inputSchema env) (rawPage raw) = Inl ps \<and> ps \<noteq> []"
    using assms
  proof
    assume "\<exists>q. rawQuery raw = JStr q \<and> (length q < 1 \<or> 128 < length q)"
    then obtain q where "rawQuery raw = JStr q" "length q < 1 \<or> 128 < length q" by blast
    then have "querySchema (inputSchema env) (rawQuery raw) = Inl [TooSmall]
        \<or> querySchema (inputSchema env) (rawQuery raw) = Inl [TooBig]"
      by (auto simp: parse_query)
    then show ?thesis by auto
  next
    let ?n = "ToNumber (StringToNumber env) (rawPage raw)"
    assume "let n = ?n in jsless n (Finite 1) \<or> jsless (Finite 10) n"
    then have out: "jsless ?n (Finite 1) \<or> jsless (Finite 10) ?n" by (simp add: Let_def)
    then have "rawPage raw \<noteq> JUndefined" by auto
    from parse_page_reject [OF this refl] out show ?thesis by blast
  qed
  then obtain issues where "issues \<noteq> []" "parse_object (inputSchema env) raw = Inl issues"
    using parse_object_issues [of "inputSchema env" raw] by blast
  then show ?thesis by (simp add: run_def)
qed

text \<open>
  An empty query, page 11 and page \<open>"0"\<close> reach no backend; a valid input makes one call.
\<close>

theorem invalid_input_makes_no_call_witness:
  "(\<exists>issues. issues \<noteq> [] \<and>
      run stub (constructor no_options) \<lparr>rawQuery = JStr [], rawPage = JUndefined\<rparr> None
        = ([], Inl (ValidationError issues)))
   \<and> (\<exists>issues. issues \<noteq> [] \<and>
      run stub (constructor no_options) \<lparr>rawQuery = JStr ''bee'', rawPage = JNum (Finite 11)\<rparr> None
        = ([], Inl (ValidationError issues)))
   \<and> (\<exists>issues. issues \<noteq> [] \<and>
      run stub (constructor no_options) \<lparr>rawQuery = JStr ''bee'', rawPage = JStr ''0''\<rparr> None
        = ([], Inl (ValidationError issues)))
   \<and> length (fst (run stub (constructor no_options)
        \<lparr>rawQuery = JStr ''bee'', rawPage = JNum (Finite 2)\<rparr> None)) = 1"
proof -
  have a: "\<exists>issues. issues \<noteq> [] \<and>
      run stub (constructor no_options) \<lparr>rawQuery = JStr [], rawPage = JUndefined\<rparr> None
        = ([], Inl (ValidationError issues))"
    by (rule invalid_input_makes_no_call) simp
  have b: "\<exists>issues. issues \<noteq> [] \<and>
      run stub (constructor no_options) \<lparr>rawQuery = JStr ''bee'', rawPage = JNum (Finite 11)\<rparr> None
        = ([], Inl (ValidationError issues))"
    by (rule invalid_input_makes_no_call) simp
  have c: "\<exists>issues. issues \<noteq> [] \<and>
      run stub (constructor no_options) \<lparr>rawQuery = JStr ''bee'', rawPage = JStr ''0''\<rparr> None
        = ([], Inl (ValidationError issues))"
    by (rule invalid_input_makes_no_call) (simp add: stub_def)
  have d: "length (fst (run stub (constructor no_options)
        \<lparr>rawQuery = JStr ''bee'', rawPage = JNum (Finite 2)\<rparr> None)) = 1"
    by (simp add: run_def parse_object_def schema_defs calls_run_impl)
  from a b c d show ?thesis by blast
qed

section \<open>Normalisation of the retained results\<close>



section \<open>Merging the HTTP client options\<close>

text \<open>
  C8 as stated fails: with a proxy URL configured, an \<open>agent\<close> given in the per-call
  HTTP options does not reach the backend; the proxy agent is sent in its place.
\<close>

theorem proxy_agent_counterexample:
  "map (\<lambda>(q, s, t). t ''agent'')
     (fst (run_impl stub
        (constructor (no_options\<lparr>p_http_proxy_url := Some ''http://proxy:8080''\<rparr>))
        \<lparr>query = ''bee'', page = Some 1\<rparr>
        (Some \<lparr>run_search = None,
               run_httpClientOptions = Some [''agent'' \<mapsto> VAgent (OtherAgent 7)]\<rparr>)))
   = [Some (VAgent (HttpsProxyAgent ''http://proxy:8080''))]
   \<and> VAgent (HttpsProxyAgent ''http://proxy:8080'') \<noteq> VAgent (OtherAgent 7)"
  by (simp add: transport_agent merge_httpClientOptions_def constructor_def no_options_def Let_def)

text \<open>
  C8, amended. The HTTP client options are the configuration's options overlaid by the
  per-call options, key by key, the per-call value winning where both have the key. If a
  non-empty proxy URL is configured, the key \<open>agent\<close> of the merged options is the
  proxying agent for that URL, whatever the configuration or the call gave for \<open>agent\<close>;
  every other key is as merged.
\<close>

theorem http_options_merge:
  "(\<forall>u. http_proxy_url opts = Some u \<and> u \<noteq> [] \<longrightarrow>
        merge_httpClientOptions opts ro ''agent'' = Some (VAgent (HttpsProxyAgent u)))
   \<and> (k \<noteq> ''agent'' \<or> http_proxy_url opts = None \<or> http_proxy_url opts = Some [] \<longrightarrow>
        merge_httpClientOptions opts ro k =
          (case spread (Option.bind ro run_httpClientOptions) k of
             Some v \<Rightarrow> Some v
           | None \<Rightarrow> spread (httpClientOptions opts) k))"
  by (auto simp: merged_lookup)

theorem http_options_merge_witness:
  "merge_httpClientOptions
     \<lparr>search = None, throttle = None,
      httpClientOptions = Some [''timeout'' \<mapsto> VNum 5, ''compressed'' \<mapsto> VBool True],
      maxResultsPerPage = 15, apiKey = None, http_proxy_url = Some ''http://proxy:8080''\<rparr>
     (Some \<lparr>run_search = None, run_httpClientOptions = Some [''timeout'' \<mapsto> VNum 9]\<rparr>)
     ''timeout'' = Some (VNum 9)
   \<and> merge_httpClientOptions
     \<lparr>search = None, throttle = None,
      httpClientOptions = Some [''timeout'' \<mapsto> VNum 5, ''compressed'' \<mapsto> VBool True],
      maxResultsPerPage = 15, apiKey = None, http_proxy_url = Some ''http://proxy:8080''\<rparr>
     (Some \<lparr>run_search = None, run_httpClientOptions = Some [''timeout'' \<mapsto> VNum 9]\<rparr>)
     ''compressed'' = Some (VBool True)
   \<and> merge_httpClientOptions
     \<lparr>search = None, throttle = None,
      httpClientOptions = Some [''timeout'' \<mapsto> VNum 5, ''compressed'' \<mapsto> VBool True],
      maxResultsPerPage = 15, apiKey = None, http_proxy_url = Some ''http://proxy:8080''\<rparr>
     (Some \<lparr>run_search = None, run_httpClientOptions = Some [''timeout'' \<mapsto> VNum 9]\<rparr>)
     ''agent'' = Some (VAgent (HttpsProxyAgent ''http://proxy:8080''))"
proof -
  let ?opts = "\<lparr>search = None, throttle = None,
      httpClientOptions = Some [''timeout'' \<mapsto> VNum 5, ''compressed'' \<mapsto> VBool True],
      maxResultsPerPage = 15, apiKey = None, http_proxy_url = Some ''http://proxy:8080''\<rparr>"
  let ?ro = "Some \<lparr>run_search = None, run_httpClientOptions = Some [''timeout'' \<mapsto> VNum 9]\<rparr>"
  have a: "merge_httpClientOptions ?opts ?ro ''timeout'' = Some (VNum 9)"
    using http_options_merge [of ?opts ?ro "''timeout''"] by simp
  have b: "merge_httpClientOptions ?opts ?ro ''compressed'' = Some (VBool True)"
    using http_options_merge [of ?opts ?ro "''compressed''"] by simp
  have c: "merge_httpClientOptions ?opts ?ro ''agent'' = Some (VAgent (HttpsProxyAgent ''http://proxy:8080''))"
    using http_options_merge [of ?opts ?ro "''agent''"] by simp
  from a b c show ?thesis by simp
qed

section \<open>The page size of a constructed tool\<close>

text \<open>
  C9 as stated fails: the constructor takes the given cap as it is, so a tool constructed
  with a cap of 0 (or of -1) has a cap that is not positive.
\<close>

theorem cap_not_positive_counterexample:
  "maxResultsPerPage (options (constructor (no_options\<lparr>p_maxResultsPerPage := Some 0\<rparr>))) = 0
   \<and> \<not> 0 < maxResultsPerPage (options (constructor (no_options\<lparr>p_maxResultsPerPage := Some 0\<rparr>)))
   \<and> maxResultsPerPage (options (constructor (no_options\<lparr>p_maxResultsPerPage := Some (- 1)\<rparr>))) = - 1"
  by (simp add: cap_constructor)

text \<open>
  C9, amended. The cap of a constructed tool is the value given at construction, and 15
  when none is given; it is positive exactly when the given value, if any, is positive.
\<close>

theorem cap_of_constructor:
  "maxResultsPerPage (options (constructor opts))
     = (case p_maxResultsPerPage opts of None \<Rightarrow> 15 | Some n \<Rightarrow> n)
   \<and> (p_maxResultsPerPage opts = None \<longrightarrow> maxResultsPerPage (options (constructor opts)) = 15)
   \<and> (0 < maxResultsPerPage (options (constructor opts))
        \<longleftrightarrow> (\<forall>n. p_maxResultsPerPage opts = Some n \<longrightarrow> 0 < n))"
  by (auto simp: cap_constructor split: option.splits)

theorem cap_of_constructor_witness:
  "maxResultsPerPage (options (constructor no_options)) = 15
   \<and> maxResultsPerPage (options (constructor (no_options\<lparr>p_maxResultsPerPage := Some 5\<rparr>))) = 5
   \<and> 0 < maxResultsPerPage (options (constructor (no_options\<lparr>p_maxResultsPerPage := Some 5\<rparr>)))"
  using cap_of_constructor [of no_options]
    cap_of_constructor [of "no_options\<lparr>p_maxResultsPerPage := Some 5\<rparr>"]
  by (simp add: no_options_def)

section \<open>HTTP options replace the generated headers\<close>

text \<open>
  C10. If the merged HTTP client options have a value under \<open>headers\<close> or under
  \<open>user_agent\<close>, that value is what the transport options passed to the backend hold
  under the key, in place of the generated header set and the user agent derived from
  it. In particular a per-call \<open>headers\<close> value is sent as it is, so the
  \<open>Authorization\<close> header injected into the generated set is not sent.
\<close>

theorem http_options_replace_headers:
  assumes key: "k = ''headers'' \<or> k = ''user_agent''"
    and given: "merge_httpClientOptions (options tool) ro k = Some v"
  shows "map (\<lambda>(q, s, t). t k) (fst (run_impl env tool inp ro)) = [Some v]
     \<and> (\<forall>r h w. ro = Some r \<and> run_httpClientOptions r = Some h \<and> h ''headers'' = Some w
          \<longrightarrow> map (\<lambda>(q, s, t). t ''headers'') (fst (run_impl env tool inp ro)) = [Some w])"
proof -
  have "merge_httpClientOptions (options tool) ro ''headers'' = Some w"
    if "ro = Some r" "run_httpClientOptions r = Some h" "h ''headers'' = Some w" for r h w
    using that by (simp add: merged_lookup)
  then have "\<forall>r h w. ro = Some r \<and> run_httpClientOptions r = Some h \<and> h ''headers'' = Some w
          \<longrightarrow> map (\<lambda>(q, s, t). t ''headers'') (fst (run_impl env tool inp ro)) = [Some w]"
    using transport_of_merged [of tool ro "''headers''"] by blast
  moreover have "map (\<lambda>(q, s, t). t k) (fst (run_impl env tool inp ro)) = [Some v]"
    using given by (rule transport_of_merged)
  ultimately show ?thesis by simp
qed

text \<open>
  A tool with the API key \<open>secret\<close> and a configured \<open>user_agent\<close>, called with its own
  \<open>headers\<close>: the backend receives the call's headers, which have no \<open>Authorization\<close>,
  and the configured user agent, not the generated one.
\<close>

theorem http_options_replace_headers_witness:
  "map (\<lambda>(q, s, t). t ''headers'')
     (fst (run_impl stub
        (constructor (no_options\<lparr>p_apiKey := Some ''secret'',
                                 p_httpClientOptions := Some [''user_agent'' \<mapsto> VStr ''bee/1.0'']\<rparr>))
        \<lparr>query = ''bee'', page = None\<rparr>
        (Some \<lparr>run_search = None,
               run_httpClientOptions = Some [''headers'' \<mapsto> VHeaders [''x-test'' \<mapsto> ''1'']]\<rparr>)))
     = [Some (VHeaders [''x-test'' \<mapsto> ''1''])]
   \<and> map (\<lambda>(q, s, t). t ''user_agent'')
     (fst (run_impl stub
        (constructor (no_options\<lparr>p_apiKey := Some ''secret'',
                                 p_httpClientOptions := Some [''user_agent'' \<mapsto> VStr ''bee/1.0'']\<rparr>))
        \<lparr>query = ''bee'', page = None\<rparr>
        (Some \<lparr>run_search = None,
               run_httpClientOptions = Some [''headers'' \<mapsto> VHeaders [''x-test'' \<mapsto> ''1'']]\<rparr>)))
     = [Some (VStr ''bee/1.0'')]
   \<and> build_headers stub
        (options (constructor (no_options\<lparr>p_apiKey := Some ''secret'',
                                 p_httpClientOptions := Some [''user_agent'' \<mapsto> VStr ''bee/1.0'']\<rparr>)))
        ''Authorization'' = Some ''Bearer secret''
   \<and> [''x-test'' \<mapsto> ''1''] ''Authorization'' = None"
proof -
  let ?tool = "constructor (no_options\<lparr>p_apiKey := Some ''secret'',
                                 p_httpClientOptions := Some [''user_agent'' \<mapsto> VStr ''bee/1.0'']\<rparr>)"
  let ?ro = "Some \<lparr>run_search = None,
               run_httpClientOptions = Some [''headers'' \<mapsto> VHeaders [''x-test'' \<mapsto> ''1'']]\<rparr>"
  let ?inp = "\<lparr>query = ''bee'', page = None\<rparr>"
  have h: "merge_httpClientOptions (options ?tool) ?ro ''headers''
      = Some (VHeaders [''x-test'' \<mapsto> ''1''])"
    by (simp add: merged_lookup constructor_def no_options_def Let_def)
  have u: "merge_httpClientOptions (options ?tool) ?ro ''user_agent'' = Some (VStr ''bee/1.0'')"
    by (simp add: merged_lookup constructor_def no_options_def Let_def)
  have a: "map (\<lambda>(q, s, t). t ''headers'') (fst (run_impl stub ?tool ?inp ?ro))
      = [Some (VHeaders [''x-test'' \<mapsto> ''1''])]"
    using http_options_replace_headers [where k = "''headers''", OF _ h] by simp
  have b: "map (\<lambda>(q, s, t). t ''user_agent'') (fst (run_impl stub ?tool ?inp ?ro))
      = [Some (VStr ''bee/1.0'')]"
    using http_options_replace_headers [where k = "''user_agent''", OF _ u] by simp
  have c: "build_headers stub (options ?tool) ''Authorization'' = Some ''Bearer secret''"
    by (simp add: build_headers_def constructor_def no_options_def Let_def)
  from a b c show ?thesis by simp
qed

end
